theory Spec2Isabelle
  imports Main
begin

section \<open>The external client library and the manager's state\<close>

text \<open>
  The presence manager (class \<open>PresenceManager\<close>) talks to an external RPC client
  library. The model keeps a log of every call the manager makes on that library, in the
  order of the calls; the library's answers (a promise that resolves or rejects) are
  inputs of the model.

  A JavaScript string is modelled as a \<open>string\<close>; a \<open>char\<close> stands for one code unit
  below 256, which covers every character the modelled functions inspect or produce
  (\<open>/\<close>, the space and the middle dot U+00B7).
\<close>

datatype client = Client

record activity =
  details :: string
  state :: string
  startTimestamp :: nat

datatype ext_call =
    NewClient
  | Login
  | SetActivity activity
  | ClearActivity
  | Destroy

datatype outcome = Resolved | Rejected

datatype error = TypeError | Rejection

text \<open>
  The fields of the class, in the order of the source, and the log \<open>calls\<close> of the calls
  made on the library (which is not a field of the class). A timer field is \<open>True\<close>
  when the source's field holds an interval handle and \<open>False\<close> when it is \<open>null\<close>.
\<close>

record manager =
  client :: "client option"
  connected :: bool
  connecting :: bool
  destroyed :: bool
  lastActivity :: "activity option"
  heartbeatTimer :: bool
  reconnectTimer :: bool
  sessionStart :: nat
  filesEdited :: nat
  commandsRun :: nat
  projectName :: string
  calls :: "ext_call list"

definition new_manager :: "string \<Rightarrow> nat \<Rightarrow> manager" where
  "new_manager name now =
     \<lparr> client = None, connected = False, connecting = False, destroyed = False,
       lastActivity = None, heartbeatTimer = False, reconnectTimer = False,
       sessionStart = now, filesEdited = 0, commandsRun = 0, projectName = name,
       calls = [] \<rparr>"

section \<open>Asynchronous functions as segments between suspension points\<close>

text \<open>
  An \<open>async\<close> function runs synchronously up to an \<open>await\<close> of a call on the library,
  is suspended there, and is resumed when the awaited promise settles. A \<open>task\<close> names
  the suspension point together with the functions waiting on it:
  \<^item> \<open>ConnectDestroy\<close>: \<open>connect\<close> at \<open>await this.client.destroy()\<close> (lingering client);
  \<^item> \<open>ConnectLogin\<close>: \<open>connect\<close> at \<open>await this.client.login()\<close>;
  \<^item> \<open>ConnectReplay\<close>: \<open>connect\<close> awaiting \<open>sendActivity\<close>, itself at \<open>setActivity\<close>;
  \<^item> \<open>Send\<close>: \<open>sendActivity\<close> at \<open>setActivity\<close>, called by \<open>update\<close> or the heartbeat;
  \<^item> \<open>Clear\<close>: \<open>clear\<close> at \<open>clearActivity\<close>;
  \<^item> \<open>DestroyClear\<close>, \<open>DestroyClose\<close>: \<open>destroy\<close> at \<open>clearActivity\<close> and at
    \<open>this.client.destroy()\<close>;
  \<^item> \<open>DroppedClose\<close>: the promise of the call \<open>this.client.destroy()\<close> that
    \<open>destroySync\<close> makes and does not await; no function waits on it.

  A segment of code ends suspended (\<open>Await\<close>), with the function's return value
  (\<open>Return\<close>), or with an exception that leaves the function (\<open>Throw\<close>). The
  continuations that run when a promise settles (the rest of the function that awaited it
  and of its callers) are taken as one segment.
\<close>

datatype task =
    ConnectDestroy
  | ConnectLogin
  | ConnectReplay
  | Send
  | Clear
  | DestroyClear
  | DestroyClose
  | DroppedClose

datatype 'r step =
    Await task manager
  | Return 'r manager
  | Throw error manager

fun state_of :: "'r step \<Rightarrow> manager" where
  "state_of (Await t m) = m"
| "state_of (Return v m) = m"
| "state_of (Throw e m) = m"

fun is_Throw :: "'r step \<Rightarrow> bool" where
  "is_Throw (Throw e m) = True"
| "is_Throw s = False"

definition emit :: "ext_call \<Rightarrow> manager \<Rightarrow> manager" where
  "emit c m = m\<lparr>calls := calls m @ [c]\<rparr>"

text \<open>\<open>try { s } catch { h }\<close>: an exception of \<open>s\<close> runs the handler.\<close>

definition try_catch :: "'r step \<Rightarrow> (manager \<Rightarrow> 'r step) \<Rightarrow> 'r step" where
  "try_catch s h = (case s of Throw e m \<Rightarrow> h m | Await t m \<Rightarrow> Await t m | Return v m \<Rightarrow> Return v m)"

text \<open>Sequencing: the rest \<open>k\<close> runs on the value of a segment that returned.\<close>

definition then_step :: "'a step \<Rightarrow> ('a \<Rightarrow> manager \<Rightarrow> 'b step) \<Rightarrow> 'b step" where
  "then_step s k = (case s of Return v m \<Rightarrow> k v m | Await t m \<Rightarrow> Await t m | Throw e m \<Rightarrow> Throw e m)"

text \<open>An \<open>await\<close> resumed: a rejected promise throws at the \<open>await\<close>.\<close>

definition settle :: "outcome \<Rightarrow> manager \<Rightarrow> unit step" where
  "settle r m = (case r of Resolved \<Rightarrow> Return () m | Rejected \<Rightarrow> Throw Rejection m)"

subsection \<open>Timers\<close>

definition stopHeartbeat :: "manager \<Rightarrow> manager" where
  "stopHeartbeat m = (if heartbeatTimer m then m\<lparr>heartbeatTimer := False\<rparr> else m)"

definition stopReconnectLoop :: "manager \<Rightarrow> manager" where
  "stopReconnectLoop m = (if reconnectTimer m then m\<lparr>reconnectTimer := False\<rparr> else m)"

definition startHeartbeat :: "manager \<Rightarrow> manager" where
  "startHeartbeat m = (stopHeartbeat m)\<lparr>heartbeatTimer := True\<rparr>"

definition startReconnectLoop :: "manager \<Rightarrow> manager" where
  "startReconnectLoop m =
     (if destroyed m \<or> reconnectTimer m then m
      else (stopHeartbeat m)\<lparr>reconnectTimer := True\<rparr>)"

subsection \<open>sendActivity\<close>

text \<open>
  \<open>this.client!.user?.setActivity(...)\<close> inside \<open>try\<close>: reading \<open>user\<close> of a \<open>null\<close>
  client throws a TypeError (the \<open>!\<close> is erased at run time), otherwise the expression
  is evaluated and awaited. The log entry \<open>SetActivity\<close> stands for that evaluation; on a
  client whose \<open>user\<close> is still undefined the optional chaining makes no call and the
  \<open>await\<close> resolves, which is the outcome \<open>Resolved\<close>. The same holds for
  \<open>clearActivity\<close>. The handler demotes \<open>connected\<close> and calls \<open>startReconnectLoop\<close>.
\<close>

definition sendActivity_catch :: "manager \<Rightarrow> unit step" where
  "sendActivity_catch m = Return () (startReconnectLoop (m\<lparr>connected := False\<rparr>))"

definition sendActivity :: "activity \<Rightarrow> manager \<Rightarrow> unit step" where
  "sendActivity a m =
     try_catch
       (case client m of
          None \<Rightarrow> Throw TypeError m
        | Some c \<Rightarrow> Await Send (emit (SetActivity a) m))
       sendActivity_catch"

definition sendActivity_resume :: "outcome \<Rightarrow> manager \<Rightarrow> unit step" where
  "sendActivity_resume r m = try_catch (settle r m) sendActivity_catch"

subsection \<open>connect\<close>

definition connect_catch :: "manager \<Rightarrow> bool step" where
  "connect_catch m =
     Return False (startReconnectLoop (m\<lparr>connected := False, connecting := False, client := None\<rparr>))"

text \<open>
  \<open>this.client = new Client(...)\<close>, the registration of the \<open>disconnected\<close> handler, and
  \<open>await this.client.login()\<close>.
\<close>

definition connect_open :: "manager \<Rightarrow> bool step" where
  "connect_open m = Await ConnectLogin (emit Login (emit NewClient (m\<lparr>client := Some Client\<rparr>)))"

definition connect_finish :: "manager \<Rightarrow> bool step" where
  "connect_finish m = Return True (startHeartbeat m)"

text \<open>The code after the login resolved, up to the replay of the last activity.\<close>

definition connect_established :: "manager \<Rightarrow> bool step" where
  "connect_established m =
     (let m1 = stopReconnectLoop (m\<lparr>connected := True, connecting := False\<rparr>) in
      case lastActivity m1 of
        None \<Rightarrow> connect_finish m1
      | Some a \<Rightarrow>
          (case sendActivity a m1 of
             Await t m2 \<Rightarrow> Await ConnectReplay m2
           | Return u m2 \<Rightarrow> connect_finish m2
           | Throw e m2 \<Rightarrow> Throw e m2))"

definition connect :: "manager \<Rightarrow> bool step" where
  "connect m =
     (if destroyed m then Return False m
      else if connected m \<and> client m \<noteq> None then Return True m
      else if connecting m then Return False m
      else
        try_catch
          (let m1 = m\<lparr>connecting := True\<rparr> in
           case client m1 of
             Some c \<Rightarrow> Await ConnectDestroy (emit Destroy m1)
           | None \<Rightarrow> connect_open m1)
          connect_catch)"

text \<open>
  Resuming \<open>connect\<close>. At \<open>ConnectDestroy\<close> the inner \<open>try { await ... } catch {}\<close>
  ignores how the promise settled, then \<open>this.client = null\<close> and the new client follow.
\<close>

definition connect_resume :: "task \<Rightarrow> outcome \<Rightarrow> manager \<Rightarrow> bool step" where
  "connect_resume t r m =
     try_catch
       (case t of
          ConnectDestroy \<Rightarrow>
            then_step (try_catch (settle r m) (Return ()))
              (\<lambda>u m1. connect_open (m1\<lparr>client := None\<rparr>))
        | ConnectLogin \<Rightarrow> then_step (settle r m) (\<lambda>u. connect_established)
        | ConnectReplay \<Rightarrow> then_step (sendActivity_resume r m) (\<lambda>u. connect_finish)
        | _ \<Rightarrow> Return False m)
       connect_catch"

subsection \<open>update\<close>

text \<open>
  \<open>extraDetails\<close> is an optional string; \<open>undefined\<close> and the empty string are falsy.
  The separator of the template literal is a space, U+00B7 and a space.
\<close>

definition middle_dot :: char where
  "middle_dot = CHR 0xB7"

definition make_details :: "string \<Rightarrow> string option \<Rightarrow> string" where
  "make_details name extraDetails =
     (case extraDetails of
        None \<Rightarrow> ''Working on '' @ name
      | Some d \<Rightarrow> if d \<noteq> [] then name @ [CHR '' '', middle_dot, CHR '' ''] @ d
                  else ''Working on '' @ name)"

definition payload :: "manager \<Rightarrow> string \<Rightarrow> string option \<Rightarrow> activity" where
  "payload m st extraDetails =
     \<lparr> details = make_details (projectName m) extraDetails, state = st,
       startTimestamp = sessionStart m \<rparr>"

definition discard :: "'r step \<Rightarrow> unit step" where
  "discard s = then_step s (\<lambda>v. Return ())"

text \<open>The assignment to \<open>lastActivity\<close> (the first statements of \<open>update\<close>).\<close>

definition update_cache :: "string \<Rightarrow> string option \<Rightarrow> manager \<Rightarrow> manager" where
  "update_cache st extraDetails m = m\<lparr>lastActivity := Some (payload m st extraDetails)\<rparr>"

text \<open>The rest of \<open>update\<close>: connect when not connected, send otherwise.\<close>

definition update_dispatch :: "string \<Rightarrow> string option \<Rightarrow> manager \<Rightarrow> unit step" where
  "update_dispatch st extraDetails m =
     (if \<not> connected m \<or> client m = None then discard (connect m)
      else sendActivity (payload m st extraDetails) m)"

definition update :: "string \<Rightarrow> string option \<Rightarrow> manager \<Rightarrow> unit step" where
  "update st extraDetails m = update_dispatch st extraDetails (update_cache st extraDetails m)"

subsection \<open>clear, destroy, destroySync, resetSession\<close>

definition clear :: "manager \<Rightarrow> unit step" where
  "clear m =
     (let m1 = m\<lparr>lastActivity := None\<rparr> in
      if \<not> connected m1 \<or> client m1 = None then Return () m1
      else try_catch (Await Clear (emit ClearActivity m1)) (Return ()))"

definition clear_resume :: "outcome \<Rightarrow> manager \<Rightarrow> unit step" where
  "clear_resume r m = try_catch (settle r m) (Return ())"

text \<open>The statements of \<open>destroy\<close> after its \<open>try\<close>/\<open>catch\<close>.\<close>

definition destroy_finish :: "manager \<Rightarrow> unit step" where
  "destroy_finish m = Return () (m\<lparr>client := None, connected := False, lastActivity := None\<rparr>)"

definition destroy :: "manager \<Rightarrow> unit step" where
  "destroy m =
     (let m1 = stopReconnectLoop (stopHeartbeat (m\<lparr>destroyed := True\<rparr>)) in
      case client m1 of
        Some c \<Rightarrow>
          then_step (try_catch (Await DestroyClear (emit ClearActivity m1)) (Return ()))
            (\<lambda>u. destroy_finish)
      | None \<Rightarrow> Return () (m1\<lparr>connected := False, lastActivity := None\<rparr>))"

text \<open>
  Resuming \<open>destroy\<close>: after \<open>clearActivity\<close> resolved, \<open>this.client.destroy()\<close> is called
  on the field as it is then (a TypeError when it has become \<open>null\<close>); every exception
  inside the \<open>try\<close> leads to the statements after it.
\<close>

definition destroy_resume :: "task \<Rightarrow> outcome \<Rightarrow> manager \<Rightarrow> unit step" where
  "destroy_resume t r m =
     then_step
       (try_catch
          (case t of
             DestroyClear \<Rightarrow>
               then_step (settle r m)
                 (\<lambda>u m1. case client m1 of
                            None \<Rightarrow> Throw TypeError m1
                          | Some c \<Rightarrow> Await DestroyClose (emit Destroy m1))
           | _ \<Rightarrow> settle r m)
          (Return ()))
       (\<lambda>u. destroy_finish)"

text \<open>
  \<open>destroySync\<close> awaits nothing. The call \<open>this.client.destroy()\<close> is made inside an
  empty \<open>try\<close>/\<open>catch\<close> and the promise it returns is dropped: neither awaited nor given
  a handler. \<open>throws\<close> tells whether the call throws synchronously; then the \<open>catch\<close>
  swallows the exception and there is no promise. Otherwise the promise stays pending
  after \<open>destroySync\<close> has returned. The result is the outcome of the synchronous code
  and the promises it leaves pending.
\<close>

definition destroySync :: "bool \<Rightarrow> manager \<Rightarrow> unit step \<times> task list" where
  "destroySync throws m =
     (let m1 = stopReconnectLoop (stopHeartbeat (m\<lparr>destroyed := True\<rparr>)) in
      (then_step
         (case client m1 of
            Some c \<Rightarrow>
              then_step
                (try_catch
                   (if throws then Throw Rejection (emit Destroy m1)
                    else Return () (emit Destroy m1))
                   (Return ()))
                (\<lambda>u m2. Return () (m2\<lparr>client := None\<rparr>))
          | None \<Rightarrow> Return () m1)
         (\<lambda>u m3. Return () (m3\<lparr>connected := False\<rparr>)),
       case client m1 of
         Some c \<Rightarrow> if throws then [] else [DroppedClose]
       | None \<Rightarrow> []))"

definition resetSession :: "nat \<Rightarrow> manager \<Rightarrow> manager" where
  "resetSession now m = m\<lparr>sessionStart := now, filesEdited := 0, commandsRun := 0\<rparr>"

subsection \<open>Timer callbacks and the transport's notification\<close>

definition heartbeat_tick :: "manager \<Rightarrow> unit step" where
  "heartbeat_tick m =
     (case lastActivity m of
        None \<Rightarrow> Return () m
      | Some a \<Rightarrow>
          if \<not> connected m \<or> client m = None then Return () m
          else sendActivity a m)"

definition reconnect_tick :: "manager \<Rightarrow> unit step" where
  "reconnect_tick m =
     (if destroyed m then Return () (stopReconnectLoop m)
      else discard (connect m))"

definition on_disconnected :: "manager \<Rightarrow> manager" where
  "on_disconnected m = startReconnectLoop (m\<lparr>connected := False\<rparr>)"

subsection \<open>Resuming a suspended task\<close>

text \<open>
  When the dropped promise of \<open>destroySync\<close> settles, no code of the manager runs. Its
  rejection has no handler: it leaves the manager as an unhandled rejection, which the
  host process answers by terminating unless it has installed a handler of its own.
\<close>

definition resume :: "task \<Rightarrow> outcome \<Rightarrow> manager \<Rightarrow> unit step" where
  "resume t r m =
     (case t of
        ConnectDestroy \<Rightarrow> discard (connect_resume t r m)
      | ConnectLogin \<Rightarrow> discard (connect_resume t r m)
      | ConnectReplay \<Rightarrow> discard (connect_resume t r m)
      | Send \<Rightarrow> sendActivity_resume r m
      | Clear \<Rightarrow> clear_resume r m
      | DestroyClear \<Rightarrow> destroy_resume t r m
      | DestroyClose \<Rightarrow> destroy_resume t r m
      | DroppedClose \<Rightarrow> settle r m)"

text \<open>
  Running a suspended function to its end with no other code in between: \<open>env\<close> gives
  the outcome of the promise awaited at each suspension point, and the fuel bounds the
  number of resumptions.
\<close>

fun drive :: "(task \<Rightarrow> outcome \<Rightarrow> manager \<Rightarrow> 'r step) \<Rightarrow> (task \<Rightarrow> outcome) \<Rightarrow> nat \<Rightarrow> 'r step \<Rightarrow> 'r step" where
  "drive rf env 0 s = s"
| "drive rf env (Suc n) (Await t m) = drive rf env n (rf t (env t) m)"
| "drive rf env (Suc n) (Return v m) = Return v m"
| "drive rf env (Suc n) (Throw e m) = Throw e m"

section \<open>The project name\<close>

text \<open>
  \<open>directory.split("/")\<close>: the pieces between the separators, never an empty array.
\<close>

fun split_slash :: "string \<Rightarrow> string list" where
  "split_slash [] = [[]]"
| "split_slash (c # cs) =
     (if c = CHR ''/'' then [] # split_slash cs
      else (case split_slash cs of
              [] \<Rightarrow> [[c]]
            | p # ps \<Rightarrow> (c # p) # ps))"

definition getProjectName :: "string \<Rightarrow> string" where
  "getProjectName directory =
     (let parts = split_slash directory;
          name = parts ! (length parts - 1)
      in if name \<noteq> [] then name else ''Unknown Project'')"

text \<open>The spec's words: the substring after the last \<open>/\<close> (the whole string without one).\<close>

definition after_last_slash :: "string \<Rightarrow> string" where
  "after_last_slash s = rev (takeWhile (\<lambda>c. c \<noteq> CHR ''/'') (rev s))"

section \<open>The manager among its callers, its timers and the library\<close>

text \<open>
  All code runs on one thread: a caller's call, a timer's callback, the transport's
  \<open>disconnected\<close> notification and the settling of an awaited promise run one after the
  other, each up to its next suspension point. A configuration is the manager's state
  with the suspended tasks. A timer fires only while its handle is set, the notification
  only once a client exists, and a promise settles only while a task awaits it; an event
  that is not enabled leaves the configuration as it is. An exception that leaves a
  function, and a rejection that nothing handles, is the result \<open>Inl\<close>.
\<close>

datatype event =
    CallConnect
  | CallUpdate string "string option"
  | CallClear
  | CallDestroy
  | CallDestroySync bool
  | CallResetSession nat
  | HeartbeatTick
  | ReconnectTick
  | TransportClosed
  | Settle task outcome

type_synonym config = "manager \<times> task list"

fun absorb :: "task list \<Rightarrow> unit step \<Rightarrow> error + config" where
  "absorb ts (Await t m) = Inr (m, ts @ [t])"
| "absorb ts (Return v m) = Inr (m, ts)"
| "absorb ts (Throw e m) = Inl e"

fun fire :: "event \<Rightarrow> config \<Rightarrow> error + config" where
  "fire CallConnect (m, ts) = absorb ts (discard (connect m))"
| "fire (CallUpdate st extraDetails) (m, ts) = absorb ts (update st extraDetails m)"
| "fire CallClear (m, ts) = absorb ts (clear m)"
| "fire CallDestroy (m, ts) = absorb ts (destroy m)"
| "fire (CallDestroySync throws) (m, ts) =
     absorb (ts @ snd (destroySync throws m)) (fst (destroySync throws m))"
| "fire (CallResetSession now) (m, ts) = Inr (resetSession now m, ts)"
| "fire HeartbeatTick (m, ts) =
     (if heartbeatTimer m then absorb ts (heartbeat_tick m) else Inr (m, ts))"
| "fire ReconnectTick (m, ts) =
     (if reconnectTimer m then absorb ts (reconnect_tick m) else Inr (m, ts))"
| "fire TransportClosed (m, ts) =
     (if NewClient \<in> set (calls m) then Inr (on_disconnected m, ts) else Inr (m, ts))"
| "fire (Settle t r) (m, ts) =
     (if t \<in> set ts then absorb (remove1 t ts) (resume t r m) else Inr (m, ts))"

fun run :: "event list \<Rightarrow> config \<Rightarrow> error + config" where
  "run [] c = Inr c"
| "run (ev # evs) c = (case fire ev c of Inl e \<Rightarrow> Inl e | Inr c' \<Rightarrow> run evs c')"

text \<open>The manager's state at the end of a run, when no exception escaped.\<close>

fun final :: "error + config \<Rightarrow> manager option" where
  "final (Inl e) = None"
| "final (Inr (m, ts)) = Some m"

text \<open>
  The events after which the manager runs on with \<open>lastActivity\<close> as it was: every event
  but a call of \<open>update\<close>, \<open>clear\<close> or \<open>destroy\<close>, the resumption of \<open>destroy\<close>, and
  the unhandled rejection of the promise that \<open>destroySync\<close> dropped.
\<close>

fun keeps_presence :: "event \<Rightarrow> bool" where
  "keeps_presence (CallUpdate st extraDetails) = False"
| "keeps_presence CallClear = False"
| "keeps_presence CallDestroy = False"
| "keeps_presence (Settle DestroyClear r) = False"
| "keeps_presence (Settle DestroyClose r) = False"
| "keeps_presence (Settle DroppedClose Rejected) = False"
| "keeps_presence ev = True"



text \<open>Environments and states used as examples.\<close>

definition always :: "outcome \<Rightarrow> task \<Rightarrow> outcome" where
  "always r t = r"

definition replay_fails :: "task \<Rightarrow> outcome" where
  "replay_fails t = (if t = ConnectReplay then Rejected else Resolved)"

definition fresh :: config where
  "fresh = (new_manager ''myproj'' 0, [])"

text \<open>A manager connected by a first \<open>connect\<close> whose login resolved.\<close>

definition online :: manager where
  "online = state_of (drive connect_resume (always Resolved) 3 (connect (new_manager ''myproj'' 0)))"

section \<open>The segments without their exception plumbing\<close>

text \<open>
  Each segment, with every \<open>try\<close>/\<open>catch\<close> resolved: what it returns or awaits and
  the state it leaves.
\<close>

lemma stopHeartbeat_eq: "stopHeartbeat m = m\<lparr>heartbeatTimer := False\<rparr>"
  by (cases m) (simp add: stopHeartbeat_def)

lemma stopReconnectLoop_eq: "stopReconnectLoop m = m\<lparr>reconnectTimer := False\<rparr>"
  by (cases m) (simp add: stopReconnectLoop_def)

lemma startHeartbeat_eq: "startHeartbeat m = m\<lparr>heartbeatTimer := True\<rparr>"
  by (simp add: startHeartbeat_def stopHeartbeat_eq)

lemma startReconnectLoop_eq:
  "startReconnectLoop m =
     (if destroyed m \<or> reconnectTimer m then m
      else m\<lparr>heartbeatTimer := False, reconnectTimer := True\<rparr>)"
  by (simp add: startReconnectLoop_def stopHeartbeat_eq)

lemmas timer_eqs = stopHeartbeat_eq stopReconnectLoop_eq startHeartbeat_eq startReconnectLoop_eq

lemmas timer_defs = stopHeartbeat_def stopReconnectLoop_def startHeartbeat_def startReconnectLoop_def

lemmas control_defs = try_catch_def then_step_def settle_def discard_def

lemma sendActivity_eq:
  "sendActivity a m =
     (case client m of
        None \<Rightarrow> Return () (startReconnectLoop (m\<lparr>connected := False\<rparr>))
      | Some c \<Rightarrow> Await Send (emit (SetActivity a) m))"
  by (simp add: sendActivity_def sendActivity_catch_def try_catch_def split: option.split)

lemma sendActivity_resume_eq:
  "sendActivity_resume r m =
     Return () (case r of Resolved \<Rightarrow> m | Rejected \<Rightarrow> startReconnectLoop (m\<lparr>connected := False\<rparr>))"
  by (simp add: sendActivity_resume_def sendActivity_catch_def control_defs split: outcome.split)

lemma connect_eq:
  "connect m =
     (if destroyed m then Return False m
      else if connected m \<and> client m \<noteq> None then Return True m
      else if connecting m then Return False m
      else case client m of
             Some c \<Rightarrow> Await ConnectDestroy (emit Destroy (m\<lparr>connecting := True\<rparr>))
           | None \<Rightarrow> Await ConnectLogin
                       (emit Login (emit NewClient (m\<lparr>connecting := True, client := Some Client\<rparr>))))"
  by (simp add: connect_def connect_open_def try_catch_def Let_def split: option.split)

lemma connect_established_eq:
  "connect_established m =
     (case lastActivity m of
        None \<Rightarrow> Return True (startHeartbeat (stopReconnectLoop (m\<lparr>connected := True, connecting := False\<rparr>)))
      | Some a \<Rightarrow>
          (case client m of
             None \<Rightarrow> Return True (startHeartbeat (startReconnectLoop
                        ((stopReconnectLoop (m\<lparr>connected := True, connecting := False\<rparr>))\<lparr>connected := False\<rparr>)))
           | Some c \<Rightarrow> Await ConnectReplay
                        (emit (SetActivity a) (stopReconnectLoop (m\<lparr>connected := True, connecting := False\<rparr>)))))"
  by (simp add: connect_established_def connect_finish_def sendActivity_eq stopReconnectLoop_def Let_def
           split: option.split)

lemma connect_resume_destroy_eq:
  "connect_resume ConnectDestroy r m =
     Await ConnectLogin (emit Login (emit NewClient (m\<lparr>client := Some Client\<rparr>)))"
  by (simp add: connect_resume_def connect_open_def control_defs split: outcome.split)

lemma connect_resume_login_eq:
  "connect_resume ConnectLogin r m =
     (case r of
        Resolved \<Rightarrow> connect_established m
      | Rejected \<Rightarrow> Return False
          (startReconnectLoop (m\<lparr>connected := False, connecting := False, client := None\<rparr>)))"
  by (simp add: connect_resume_def connect_catch_def connect_established_eq connect_finish_def control_defs
           split: outcome.split option.split)

lemma connect_resume_replay_eq:
  "connect_resume ConnectReplay r m =
     Return True (startHeartbeat
       (case r of Resolved \<Rightarrow> m | Rejected \<Rightarrow> startReconnectLoop (m\<lparr>connected := False\<rparr>)))"
  by (simp add: connect_resume_def connect_finish_def sendActivity_resume_eq control_defs
           split: outcome.split)

lemma clear_eq:
  "clear m =
     (if \<not> connected m \<or> client m = None then Return () (m\<lparr>lastActivity := None\<rparr>)
      else Await Clear (emit ClearActivity (m\<lparr>lastActivity := None\<rparr>)))"
  by (simp add: clear_def try_catch_def Let_def)

lemma clear_resume_eq: "clear_resume r m = Return () m"
  by (simp add: clear_resume_def control_defs split: outcome.split)

lemma destroy_eq:
  "destroy m =
     (case client m of
        Some c \<Rightarrow> Await DestroyClear
                    (emit ClearActivity (stopReconnectLoop (stopHeartbeat (m\<lparr>destroyed := True\<rparr>))))
      | None \<Rightarrow> Return () ((stopReconnectLoop (stopHeartbeat (m\<lparr>destroyed := True\<rparr>)))
                             \<lparr>connected := False, lastActivity := None\<rparr>))"
  by (simp add: destroy_def control_defs timer_defs Let_def split: option.split)

lemma destroy_resume_clear_eq:
  "destroy_resume DestroyClear r m =
     (case r of
        Rejected \<Rightarrow> Return () (m\<lparr>client := None, connected := False, lastActivity := None\<rparr>)
      | Resolved \<Rightarrow>
          (case client m of
             None \<Rightarrow> Return () (m\<lparr>client := None, connected := False, lastActivity := None\<rparr>)
           | Some c \<Rightarrow> Await DestroyClose (emit Destroy m)))"
  by (simp add: destroy_resume_def destroy_finish_def control_defs split: outcome.split option.split)

lemma destroy_resume_close_eq:
  "destroy_resume DestroyClose r m =
     Return () (m\<lparr>client := None, connected := False, lastActivity := None\<rparr>)"
  by (simp add: destroy_resume_def destroy_finish_def control_defs split: outcome.split)

lemma destroySync_eq:
  "destroySync throws m =
     (Return ()
        ((case client m of
            Some c \<Rightarrow> (emit Destroy (stopReconnectLoop (stopHeartbeat (m\<lparr>destroyed := True\<rparr>))))\<lparr>client := None\<rparr>
          | None \<Rightarrow> stopReconnectLoop (stopHeartbeat (m\<lparr>destroyed := True\<rparr>)))\<lparr>connected := False\<rparr>),
      case client m of Some c \<Rightarrow> if throws then [] else [DroppedClose] | None \<Rightarrow> [])"
  by (simp add: destroySync_def control_defs timer_defs Let_def split: option.split)

lemma destroySync_state:
  "destroySync throws m =
     (Return () (m\<lparr>destroyed := True, heartbeatTimer := False, reconnectTimer := False,
                   client := None, connected := False,
                   calls := calls m @ (case client m of None \<Rightarrow> [] | Some c \<Rightarrow> [Destroy])\<rparr>),
      if client m \<noteq> None \<and> \<not> throws then [DroppedClose] else [])"
  by (cases m; cases "client m") (simp_all add: destroySync_eq emit_def timer_eqs)

lemma update_eq:
  "update st d m =
     (if \<not> connected m \<or> client m = None then discard (connect (update_cache st d m))
      else sendActivity (payload m st d) (update_cache st d m))"
  by (simp add: update_def update_dispatch_def update_cache_def payload_def)

lemmas connect_resume_eqs = connect_resume_destroy_eq connect_resume_login_eq connect_resume_replay_eq

lemmas destroy_resume_eqs = destroy_resume_clear_eq destroy_resume_close_eq

lemma discard_not_throw: "is_Throw (discard s) = is_Throw s"
  by (cases s) (simp_all add: discard_def then_step_def)

lemma discard_state: "state_of (discard s) = state_of s"
  by (cases s) (simp_all add: discard_def then_step_def)

lemma drive_3:
  "drive rf env 3 s = drive rf env (Suc (Suc (Suc 0))) s"
  by (simp add: numeral_3_eq_3)

lemma absorb_state: "absorb ts s = Inr (m', ts') \<Longrightarrow> m' = state_of s"
  by (cases s) auto

lemmas eval_defs = fresh_def online_def always_def replay_fails_def new_manager_def drive_3
  connect_eq connect_resume_eqs connect_established_eq destroy_eq destroy_resume_eqs
  destroySync_eq update_eq update_cache_def payload_def make_details_def sendActivity_eq
  sendActivity_resume_eq clear_eq clear_resume_eq heartbeat_tick_def reconnect_tick_def
  on_disconnected_def resetSession_def discard_def then_step_def settle_def resume_def emit_def
  timer_eqs

section \<open>The project name is the last path segment\<close>

lemma split_slash_nonempty: "split_slash s \<noteq> []"
  by (induction s) (auto split: list.splits)

lemma split_slash_no_slash: "CHR ''/'' \<notin> set s \<Longrightarrow> split_slash s = [s]"
  by (induction s) auto

lemma split_slash_with_slash: "CHR ''/'' \<in> set s \<Longrightarrow> tl (split_slash s) \<noteq> []"
  by (induction s) (auto simp: split_slash_nonempty split: list.splits)

lemma after_last_slash_no_slash:
  assumes "CHR ''/'' \<notin> set s"
  shows "after_last_slash s = s"
proof -
  have all: "takeWhile (\<lambda>c. c \<noteq> CHR ''/'') (rev s) = rev s"
    using assms by auto
  show ?thesis unfolding after_last_slash_def all by simp
qed

lemma after_last_slash_Cons:
  "CHR ''/'' \<in> set cs \<Longrightarrow> after_last_slash (c # cs) = after_last_slash cs"
  by (auto simp: after_last_slash_def takeWhile_append)

lemma after_last_slash_slash:
  "CHR ''/'' \<notin> set cs \<Longrightarrow> after_last_slash (CHR ''/'' # cs) = cs"
  using after_last_slash_no_slash [of cs]
  by (auto simp: after_last_slash_def takeWhile_append)

lemma last_split_slash: "last (split_slash s) = after_last_slash s"
proof (induction s)
  case Nil
  show ?case by (simp add: after_last_slash_def)
next
  case (Cons c cs)
  show ?case
  proof (cases "CHR ''/'' \<in> set cs")
    case True
    obtain p ps where sp: "split_slash cs = p # ps"
      using split_slash_nonempty[of cs] by (cases "split_slash cs") auto
    with split_slash_with_slash[OF True] have "ps \<noteq> []" by simp
    with sp Cons True show ?thesis
      by (simp add: after_last_slash_Cons)
  next
    case False
    show ?thesis
    proof (cases "c = CHR ''/''")
      case True
      with False show ?thesis
        by (simp add: split_slash_no_slash after_last_slash_slash)
    next
      case c: False
      with False have "CHR ''/'' \<notin> set (c # cs)" by simp
      from after_last_slash_no_slash[OF this] c False show ?thesis
        by (simp add: split_slash_no_slash)
    qed
  qed
qed

text \<open>
  Claim C9. For every directory string, the project name is the substring after the last
  \<open>/\<close> when that substring is not empty and \<open>Unknown Project\<close> when it is; the
  directory \<open>/home/u/myproj\<close> gives \<open>myproj\<close>.
\<close>

theorem getProjectName_spec:
  "getProjectName directory =
     (if after_last_slash directory \<noteq> [] then after_last_slash directory
      else ''Unknown Project'')
   \<and> getProjectName ''/home/u/myproj'' = ''myproj''"
proof -
  have idx: "\<And>s. split_slash s ! (length (split_slash s) - 1) = after_last_slash s"
    using last_split_slash split_slash_nonempty by (simp add: last_conv_nth)
  have gen: "\<And>d. getProjectName d =
     (if after_last_slash d \<noteq> [] then after_last_slash d else ''Unknown Project'')"
    unfolding getProjectName_def Let_def idx by simp
  have "after_last_slash ''/home/u/myproj'' = ''myproj''"
    by (simp add: after_last_slash_def)
  with gen show ?thesis by simp
qed

theorem getProjectName_spec_witness:
  "getProjectName ''/srv/'' = ''Unknown Project'' \<and> getProjectName ''a/b'' = ''b''"
  using getProjectName_spec [of "''/srv/''"] getProjectName_spec [of "''a/b''"]
  by (simp add: after_last_slash_def)

section \<open>Where an error leaves the manager\<close>

lemma connect_not_throw: "\<not> is_Throw (connect m)"
  by (simp add: connect_eq split: option.split)

lemma connect_resume_not_throw: "\<not> is_Throw (connect_resume t r m)"
proof (cases "t = ConnectDestroy \<or> t = ConnectLogin \<or> t = ConnectReplay")
  case True
  then show ?thesis
    by (cases r) (auto simp: connect_resume_eqs connect_established_eq split: option.splits)
next
  case False
  then show ?thesis
    by (cases t) (simp_all add: connect_resume_def try_catch_def)
qed

lemma sendActivity_not_throw: "\<not> is_Throw (sendActivity a m)"
  by (simp add: sendActivity_eq split: option.split)

lemma update_not_throw: "\<not> is_Throw (update st d m)"
  by (simp add: update_eq discard_not_throw connect_not_throw sendActivity_not_throw)

lemma clear_not_throw: "\<not> is_Throw (clear m)"
  by (simp add: clear_eq)

lemma destroy_not_throw: "\<not> is_Throw (destroy m)"
  by (simp add: destroy_eq split: option.split)

lemma resume_not_throw: "t \<noteq> DroppedClose \<or> r = Resolved \<Longrightarrow> \<not> is_Throw (resume t r m)"
  by (cases t; cases r)
     (simp_all add: resume_def discard_not_throw connect_resume_not_throw sendActivity_resume_eq
        clear_resume_eq destroy_resume_eqs settle_def split: option.split)

lemma heartbeat_tick_not_throw: "\<not> is_Throw (heartbeat_tick m)"
  by (simp add: heartbeat_tick_def sendActivity_not_throw split: option.split)

lemma reconnect_tick_not_throw: "\<not> is_Throw (reconnect_tick m)"
  by (simp add: reconnect_tick_def discard_not_throw connect_not_throw)

lemma absorb_Inr: "\<not> is_Throw s \<Longrightarrow> \<exists>m' ts'. absorb ts s = Inr (m', ts')"
  by (cases s) simp_all

lemma fire_total:
  assumes "ev \<noteq> Settle DroppedClose Rejected"
  shows "\<exists>c'. fire ev c = Inr c'"
proof -
  obtain m ts where c: "c = (m, ts)" by (cases c)
  have "\<exists>c'. fire ev (m, ts) = Inr c'"
  proof (cases ev)
    case (CallDestroySync throws)
    then show ?thesis by (simp add: destroySync_eq)
  next
    case (Settle t r)
    with assms have "t \<noteq> DroppedClose \<or> r = Resolved" by (cases r) auto
    from resume_not_throw[OF this, of m] Settle show ?thesis
      by (simp add: absorb_Inr)
  qed (simp_all add: absorb_Inr discard_not_throw connect_not_throw update_not_throw clear_not_throw
          destroy_not_throw heartbeat_tick_not_throw reconnect_tick_not_throw)
  with c show ?thesis by simp
qed

lemma run_total:
  "Settle DroppedClose Rejected \<notin> set evs \<Longrightarrow> \<exists>c'. run evs c = Inr c'"
proof (induction evs arbitrary: c)
  case Nil
  show ?case by simp
next
  case (Cons ev evs)
  then have "ev \<noteq> Settle DroppedClose Rejected" by auto
  from fire_total[OF this, of c] obtain c1 where "fire ev c = Inr c1" by blast
  with Cons.IH[of c1] Cons.prems show ?case by simp
qed

lemma fire_raises_only_dropped_close:
  "fire ev c = Inl e \<Longrightarrow> ev = Settle DroppedClose Rejected"
  using fire_total[of ev c] by auto

text \<open>
  Claim C8 fails on the code. \<open>destroySync()\<close> is called on a connected manager: it
  returns, and the promise of its call \<open>this.client.destroy()\<close> is left with no handler,
  the \<open>try\<close>/\<open>catch\<close> around the call being over when the promise settles. When the
  close fails, the rejection leaves the manager unhandled.
\<close>

theorem unhandled_close_rejection:
  "map_option destroyed (final (run
      [CallConnect, Settle ConnectLogin Resolved, CallDestroySync False] fresh)) = Some True
   \<and> run [CallConnect, Settle ConnectLogin Resolved, CallDestroySync False,
           Settle DroppedClose Rejected] fresh = Inl Rejection"
  by (simp add: eval_defs)

section \<open>The cached presence\<close>

lemma connect_keeps_presence: "lastActivity (state_of (connect m)) = lastActivity m"
  by (simp add: connect_eq emit_def split: option.split)

lemma connect_resume_keeps_presence:
  "lastActivity (state_of (connect_resume t r m)) = lastActivity m"
proof (cases "t = ConnectDestroy \<or> t = ConnectLogin \<or> t = ConnectReplay")
  case True
  then show ?thesis
    by (cases r)
       (auto simp: connect_resume_eqs connect_established_eq emit_def timer_defs split: option.splits)
next
  case False
  then show ?thesis
    by (cases t) (simp_all add: connect_resume_def try_catch_def)
qed

lemma sendActivity_keeps_presence: "lastActivity (state_of (sendActivity a m)) = lastActivity m"
  by (simp add: sendActivity_eq emit_def timer_defs split: option.split)

lemma sendActivity_resume_keeps_presence:
  "lastActivity (state_of (sendActivity_resume r m)) = lastActivity m"
  by (simp add: sendActivity_resume_eq timer_defs split: outcome.split)

lemma destroySync_keeps_presence:
  "lastActivity (state_of (fst (destroySync throws m))) = lastActivity m"
  by (simp add: destroySync_eq emit_def timer_defs split: option.split)

lemma heartbeat_tick_keeps_presence: "lastActivity (state_of (heartbeat_tick m)) = lastActivity m"
  by (simp add: heartbeat_tick_def sendActivity_keeps_presence split: option.split)

lemma reconnect_tick_keeps_presence: "lastActivity (state_of (reconnect_tick m)) = lastActivity m"
  by (simp add: reconnect_tick_def discard_state connect_keeps_presence timer_defs)

lemma resume_keeps_presence:
  "t \<noteq> DestroyClear \<Longrightarrow> t \<noteq> DestroyClose \<Longrightarrow>
   lastActivity (state_of (resume t r m)) = lastActivity m"
  by (cases t; cases r)
     (simp_all add: resume_def discard_state connect_resume_keeps_presence
        sendActivity_resume_keeps_presence clear_resume_eq settle_def)

lemma fire_keeps_presence:
  assumes "keeps_presence ev" and "fire ev (m, ts) = Inr (m', ts')"
  shows "lastActivity m' = lastActivity m"
proof (cases ev)
  case (Settle t r)
  with assms(1) have "t \<noteq> DestroyClear" "t \<noteq> DestroyClose" by auto
  from resume_keeps_presence[OF this] assms(2) Settle show ?thesis
    by (auto dest!: absorb_state split: if_splits)
qed (use assms in \<open>auto dest!: absorb_state
       simp: discard_state connect_keeps_presence destroySync_keeps_presence
             heartbeat_tick_keeps_presence reconnect_tick_keeps_presence
             resetSession_def on_disconnected_def timer_defs
       split: if_splits\<close>)

lemma run_keeps_presence:
  "list_all keeps_presence evs \<Longrightarrow> run evs (m, ts) = Inr (m', ts') \<Longrightarrow>
   lastActivity m' = lastActivity m"
proof (induction evs arbitrary: m ts)
  case Nil
  then show ?case by simp
next
  case (Cons ev evs)
  from Cons.prems(2) obtain m1 ts1 where f: "fire ev (m, ts) = Inr (m1, ts1)"
    and r: "run evs (m1, ts1) = Inr (m', ts')"
    by (cases "fire ev (m, ts)") auto
  from Cons.IH[OF _ r] Cons.prems(1) have "lastActivity m' = lastActivity m1" by simp
  moreover from fire_keeps_presence[OF _ f] Cons.prems(1) have "lastActivity m1 = lastActivity m"
    by simp
  ultimately show ?case by simp
qed

lemma keeps_presence_runs_on:
  "list_all keeps_presence evs \<Longrightarrow> Settle DroppedClose Rejected \<notin> set evs"
  by (auto simp: list_all_iff)

lemma update_caches: "lastActivity (state_of (update st d m)) = Some (payload m st d)"
  by (simp add: update_eq discard_state connect_keeps_presence sendActivity_keeps_presence
        update_cache_def)

lemma update_calls:
  "calls (state_of (update st d m)) = calls m
   \<or> calls (state_of (update st d m)) = calls m @ [Destroy]
   \<or> calls (state_of (update st d m)) = calls m @ [NewClient, Login]
   \<or> calls (state_of (update st d m)) = calls m @ [SetActivity (payload m st d)]"
  by (cases "client m")
     (auto simp: update_eq discard_state connect_eq sendActivity_eq update_cache_def emit_def)

text \<open>
  Claim C1. Every call \<open>update(state, detail)\<close> first overwrites \<open>lastActivity\<close> with
  \<open>(details, state, sessionStart)\<close>, whatever the connection state: the assignment is the
  first step of \<open>update\<close>, the state the first segment leaves holds the payload, and the
  only \<open>setActivity\<close> call that segment can make carries that payload. \<open>details\<close> is
  the project name, the separator and the detail when the detail is not empty, and
  \<open>Working on\<close> with the project name otherwise. After the last \<open>update\<close> of any
  sequence, whatever connection attempts, timer callbacks, notifications and settled
  promises follow while the manager runs on, \<open>lastActivity\<close> is the payload of that
  last call.
\<close>

theorem update_overwrites_lastActivity:
  "lastActivity (update_cache st d m) = Some (payload m st d)
   \<and> update st d m = update_dispatch st d (update_cache st d m)
   \<and> lastActivity (state_of (update st d m)) = Some (payload m st d)
   \<and> (calls (state_of (update st d m)) = calls m
      \<or> calls (state_of (update st d m)) = calls m @ [Destroy]
      \<or> calls (state_of (update st d m)) = calls m @ [NewClient, Login]
      \<or> calls (state_of (update st d m)) = calls m @ [SetActivity (payload m st d)])
   \<and> state (payload m st d) = st
   \<and> startTimestamp (payload m st d) = sessionStart m
   \<and> (\<forall>x. d = Some x \<and> x \<noteq> [] \<longrightarrow>
         details (payload m st d) = projectName m @ [CHR '' '', CHR 0xB7, CHR '' ''] @ x)
   \<and> (d = None \<or> d = Some [] \<longrightarrow> details (payload m st d) = ''Working on '' @ projectName m)
   \<and> (list_all keeps_presence evs \<longrightarrow>
        (\<exists>m' ts'. run (CallUpdate st d # evs) (m, ts) = Inr (m', ts')
                 \<and> lastActivity m' = Some (payload m st d)))"
proof -
  have seq: "list_all keeps_presence evs \<longrightarrow>
        (\<exists>m' ts'. run (CallUpdate st d # evs) (m, ts) = Inr (m', ts')
                 \<and> lastActivity m' = Some (payload m st d))"
  proof
    assume quiet: "list_all keeps_presence evs"
    obtain m1 ts1 where f: "fire (CallUpdate st d) (m, ts) = Inr (m1, ts1)"
      using fire_total[of "CallUpdate st d" "(m, ts)"] by auto
    then have m1: "lastActivity m1 = Some (payload m st d)"
      by (auto dest!: absorb_state simp: update_caches)
    obtain m' ts' where r: "run evs (m1, ts1) = Inr (m', ts')"
      using run_total[OF keeps_presence_runs_on[OF quiet], of "(m1, ts1)"] by auto
    from run_keeps_presence[OF quiet r] m1 f r
    show "\<exists>m' ts'. run (CallUpdate st d # evs) (m, ts) = Inr (m', ts')
                 \<and> lastActivity m' = Some (payload m st d)"
      by simp
  qed
  have pay: "state (payload m st d) = st" "startTimestamp (payload m st d) = sessionStart m"
    "\<forall>x. d = Some x \<and> x \<noteq> [] \<longrightarrow>
         details (payload m st d) = projectName m @ [CHR '' '', CHR 0xB7, CHR '' ''] @ x"
    "d = None \<or> d = Some [] \<longrightarrow> details (payload m st d) = ''Working on '' @ projectName m"
    by (auto simp: payload_def make_details_def middle_dot_def)
  show ?thesis
    using seq pay update_caches[of st d m] update_calls[of st d m]
    by (simp add: update_def update_cache_def)
qed

theorem update_overwrites_lastActivity_witness:
  "list_all keeps_presence [Settle ConnectLogin Rejected, ReconnectTick]
   \<and> (\<exists>m' ts'. run [CallUpdate ''Idle'' (Some []), Settle ConnectLogin Rejected, ReconnectTick] fresh
                  = Inr (m', ts')
        \<and> map_option details (lastActivity m') = Some ''Working on myproj''
        \<and> map_option state (lastActivity m') = Some ''Idle'')
   \<and> details (payload (new_manager ''myproj'' 0) ''Editing code'' (Some ''main.go''))
       = ''myproj'' @ [CHR '' '', CHR 0xB7, CHR '' ''] @ ''main.go''"
proof -
  have quiet: "list_all keeps_presence [Settle ConnectLogin Rejected, ReconnectTick]"
    by simp
  from update_overwrites_lastActivity
          [of "''Idle''" "Some []" "new_manager ''myproj'' 0"
              "[Settle ConnectLogin Rejected, ReconnectTick]" "[]"] quiet
  obtain m' ts' where
    "run [CallUpdate ''Idle'' (Some []), Settle ConnectLogin Rejected, ReconnectTick]
       (new_manager ''myproj'' 0, []) = Inr (m', ts')"
    "lastActivity m' = Some (payload (new_manager ''myproj'' 0) ''Idle'' (Some []))"
    by blast
  moreover from update_overwrites_lastActivity
          [of "''Editing code''" "Some ''main.go''" "new_manager ''myproj'' 0" "[]" "[]"]
  have "details (payload (new_manager ''myproj'' 0) ''Editing code'' (Some ''main.go''))
       = projectName (new_manager ''myproj'' 0) @ [CHR '' '', CHR 0xB7, CHR '' ''] @ ''main.go''"
    by blast
  ultimately show ?thesis
    using quiet by (simp add: fresh_def payload_def make_details_def new_manager_def)
qed

section \<open>A successful connect and the guards of connect\<close>

lemma connect_run_login_resolved:
  assumes "\<not> destroyed m" "\<not> (connected m \<and> client m \<noteq> None)" "\<not> connecting m"
    and "env ConnectLogin = Resolved"
  shows "\<exists>m'. drive connect_resume env 3 (connect m) = Return True m'
     \<and> heartbeatTimer m' \<and> \<not> connecting m' \<and> client m' = Some Client
     \<and> destroyed m' = False \<and> lastActivity m' = lastActivity m
     \<and> calls m' = calls m @ (case client m of None \<Rightarrow> [] | Some c \<Rightarrow> [Destroy]) @ [NewClient, Login]
                    @ (case lastActivity m of None \<Rightarrow> [] | Some a \<Rightarrow> [SetActivity a])
     \<and> (connected m' = (lastActivity m = None \<or> env ConnectReplay = Resolved))
     \<and> (reconnectTimer m' = (lastActivity m \<noteq> None \<and> env ConnectReplay = Rejected))"
  using assms
  by (cases "client m"; cases "lastActivity m"; cases "env ConnectReplay")
     (auto simp: drive_3 connect_eq connect_resume_eqs connect_established_eq emit_def timer_eqs)

lemma login_resolved_transition:
  assumes "client m \<noteq> None"
  shows "connected (state_of (connect_resume ConnectLogin Resolved m))
     \<and> \<not> connecting (state_of (connect_resume ConnectLogin Resolved m))
     \<and> \<not> reconnectTimer (state_of (connect_resume ConnectLogin Resolved m))"
  using assms
  by (cases "lastActivity m")
     (auto simp: connect_resume_eqs connect_established_eq emit_def timer_eqs)

text \<open>
  Claim C5. When \<open>connect()\<close> is called on a manager that is not destroyed, not
  connected and not connecting, and the login resolves, the call returns \<open>true\<close>
  whatever happens to the other promises, with the heartbeat timer set and the flag
  \<open>connecting\<close> cleared; it makes exactly one \<open>setActivity\<close> call, with the cached
  payload, when \<open>lastActivity\<close> is present and none otherwise. At the moment the login
  resolves the manager becomes connected and the reconnect timer is cleared. A rejected
  replay does not change the returned value; it leaves the manager disconnected with the
  reconnect timer set again.
\<close>

theorem connect_success:
  assumes "\<not> destroyed m" and "\<not> (connected m \<and> client m \<noteq> None)" and "\<not> connecting m"
    and "env ConnectLogin = Resolved"
  shows "(\<exists>m'. drive connect_resume env 3 (connect m) = Return True m'
            \<and> heartbeatTimer m' \<and> \<not> connecting m' \<and> client m' = Some Client
            \<and> calls m' = calls m @ (case client m of None \<Rightarrow> [] | Some c \<Rightarrow> [Destroy])
                              @ [NewClient, Login]
                              @ (case lastActivity m of None \<Rightarrow> [] | Some a \<Rightarrow> [SetActivity a])
            \<and> connected m' = (lastActivity m = None \<or> env ConnectReplay = Resolved)
            \<and> reconnectTimer m' = (lastActivity m \<noteq> None \<and> env ConnectReplay = Rejected))
     \<and> (\<forall>w. client w \<noteq> None \<longrightarrow>
            connected (state_of (connect_resume ConnectLogin Resolved w))
          \<and> \<not> connecting (state_of (connect_resume ConnectLogin Resolved w))
          \<and> \<not> reconnectTimer (state_of (connect_resume ConnectLogin Resolved w)))"
  using assms connect_run_login_resolved[of m env] login_resolved_transition by blast

theorem connect_success_witness:
  "\<exists>m'. drive connect_resume replay_fails 3
           (connect ((new_manager ''myproj'' 0)
              \<lparr>lastActivity := Some \<lparr>details = ''Working on myproj'', state = ''Idle'', startTimestamp = 0\<rparr>,
               reconnectTimer := True\<rparr>)) = Return True m'
        \<and> heartbeatTimer m'
        \<and> calls m' = [NewClient, Login,
             SetActivity \<lparr>details = ''Working on myproj'', state = ''Idle'', startTimestamp = 0\<rparr>]"
  using connect_success
     [of "(new_manager ''myproj'' 0)
              \<lparr>lastActivity := Some \<lparr>details = ''Working on myproj'', state = ''Idle'', startTimestamp = 0\<rparr>,
               reconnectTimer := True\<rparr>" replay_fails]
  by (auto simp: new_manager_def replay_fails_def)

lemma count_list_append: "count_list (xs @ ys) a = count_list xs a + count_list ys a"
  by (induction xs) auto

lemma connect_run_counts:
  assumes "\<not> destroyed m" "\<not> (connected m \<and> client m \<noteq> None)" "\<not> connecting m"
  shows "\<exists>v m'. drive connect_resume env 3 (connect m) = Return v m'
     \<and> count_list (calls m') Login = Suc (count_list (calls m) Login)
     \<and> count_list (calls m') NewClient = Suc (count_list (calls m) NewClient)"
  using assms
  by (cases "client m"; cases "lastActivity m"; cases "env ConnectReplay"; cases "env ConnectLogin")
     (auto simp: drive_3 connect_eq connect_resume_eqs connect_established_eq emit_def timer_eqs
        count_list_append)

text \<open>
  Claim C3, as amended. The guards of \<open>connect()\<close> are tried in the order destroyed,
  connected, connecting. So \<open>connect()\<close> returns \<open>true\<close> and changes nothing when the
  manager is connected with a client and not destroyed; it returns \<open>false\<close> and changes
  nothing (the state, hence the client, the timers and the log of calls, is the same) when
  the manager is destroyed, or when it is connecting and not connected with a client.
  From a state that is not destroyed, not connected and not connecting, a first
  \<open>connect()\<close> is suspended with \<open>connecting\<close> set, a second \<open>connect()\<close> made then
  returns \<open>false\<close> and changes nothing, and the first, run to its end, has made exactly
  one \<open>login\<close> call on exactly one new client.
\<close>

theorem connect_guards:
  "(\<not> destroyed m \<and> connected m \<and> client m \<noteq> None \<longrightarrow> connect m = Return True m)
   \<and> (destroyed m \<or> (connecting m \<and> \<not> (connected m \<and> client m \<noteq> None))
        \<longrightarrow> connect m = Return False m)
   \<and> (\<not> destroyed m \<and> \<not> connected m \<and> \<not> connecting m \<longrightarrow>
        (\<exists>t m1. connect m = Await t m1 \<and> connect m1 = Return False m1
           \<and> (\<exists>v m2. drive connect_resume env 3 (Await t m1) = Return v m2
                 \<and> count_list (calls m2) Login = Suc (count_list (calls m) Login)
                 \<and> count_list (calls m2) NewClient = Suc (count_list (calls m) NewClient))))"
proof -
  have third: "\<exists>t m1. connect m = Await t m1 \<and> connect m1 = Return False m1
           \<and> (\<exists>v m2. drive connect_resume env 3 (Await t m1) = Return v m2
                 \<and> count_list (calls m2) Login = Suc (count_list (calls m) Login)
                 \<and> count_list (calls m2) NewClient = Suc (count_list (calls m) NewClient))"
    if g: "\<not> destroyed m" "\<not> connected m" "\<not> connecting m"
  proof -
    from g obtain t m1 where a: "connect m = Await t m1" and b: "connecting m1" "\<not> destroyed m1"
      "\<not> connected m1"
      by (cases "client m") (auto simp: connect_eq emit_def)
    from b have "connect m1 = Return False m1" by (simp add: connect_eq)
    with a g connect_run_counts[of m env] show ?thesis by auto
  qed
  show ?thesis using third by (auto simp: connect_eq)
qed

theorem connect_guards_witness:
  "connect online = Return True online
   \<and> connect (state_of (fst (destroySync False online)))
       = Return False (state_of (fst (destroySync False online)))
   \<and> (\<exists>t m1. connect (new_manager ''myproj'' 0) = Await t m1 \<and> connect m1 = Return False m1
         \<and> (\<exists>v m2. drive connect_resume (always Resolved) 3 (Await t m1) = Return v m2
               \<and> count_list (calls m2) Login = 1))"
  using connect_guards [of online] connect_guards [of "state_of (fst (destroySync False online))"]
    connect_guards [of "new_manager ''myproj'' 0" "always Resolved"]
  by (simp add: online_def always_def new_manager_def drive_3 connect_eq
        connect_resume_eqs connect_established_eq destroySync_eq emit_def timer_eqs)

text \<open>
  The claim C3 as it is stated fails where its cases overlap: while \<open>destroy()\<close> awaits
  the library, the manager is destroyed and still connected with its client, and
  \<open>connect()\<close> returns \<open>false\<close> there.
\<close>

theorem connect_guard_counterexample:
  "final (run [CallConnect, Settle ConnectLogin Resolved, CallDestroy] fresh)
     = Some (state_of (destroy online))
   \<and> connected (state_of (destroy online))
   \<and> client (state_of (destroy online)) \<noteq> None
   \<and> connect (state_of (destroy online)) = Return False (state_of (destroy online))"
  by (simp add: fresh_def online_def always_def new_manager_def drive_3 connect_eq
        connect_resume_eqs connect_established_eq destroy_eq discard_def then_step_def resume_def
        emit_def timer_eqs)

section \<open>Failed sends, destroySync and the two timers\<close>

text \<open>
  Claim C4, as amended. A rejected \<open>setActivity\<close> (and the TypeError of a send without a
  client) never leaves \<open>sendActivity\<close> as an exception: the function returns, with
  \<open>connected\<close> false and nothing else changed but the timers. When the manager is not
  destroyed the reconnect timer is set once the failed send has returned; when it is
  destroyed, \<open>startReconnectLoop\<close> returns at its guard and the reconnect timer stays as
  it was.
\<close>

theorem send_failure_demotes:
  "\<exists>m'. sendActivity_resume Rejected m = Return () m'
      \<and> \<not> connected m'
      \<and> (\<not> destroyed m \<longrightarrow> reconnectTimer m')
      \<and> (destroyed m \<longrightarrow> reconnectTimer m' = reconnectTimer m)
      \<and> client m' = client m \<and> lastActivity m' = lastActivity m \<and> calls m' = calls m
      \<and> destroyed m' = destroyed m
      \<and> (client m = None \<longrightarrow> sendActivity a m = Return () m')
      \<and> (Send \<in> set ts \<longrightarrow> fire (Settle Send Rejected) (m, ts) = Inr (m', remove1 Send ts))"
  by (auto simp: sendActivity_resume_eq sendActivity_eq resume_def timer_eqs)

theorem send_failure_demotes_witness:
  "\<exists>m'. sendActivity_resume Rejected online = Return () m'
      \<and> \<not> connected m' \<and> reconnectTimer m'
      \<and> fire (Settle Send Rejected) (online, [Send]) = Inr (m', [])"
  using send_failure_demotes [of online _ "[Send]"]
  by (auto simp: eval_defs)

text \<open>
  The claim C4 as it is stated fails on a destroyed manager: a send of \<open>update\<close> is
  pending, \<open>destroy()\<close> is called and awaits the library with the manager still connected,
  the send is rejected, and no reconnect timer is set.
\<close>

theorem send_failure_counterexample:
  "map_option connected (final (run
      [CallConnect, Settle ConnectLogin Resolved, CallUpdate ''Idle'' None, CallDestroy] fresh))
     = Some True
   \<and> map_option client (final (run
      [CallConnect, Settle ConnectLogin Resolved, CallUpdate ''Idle'' None, CallDestroy] fresh))
     = Some (Some Client)
   \<and> map_option reconnectTimer (final (run
      [CallConnect, Settle ConnectLogin Resolved, CallUpdate ''Idle'' None, CallDestroy,
       Settle Send Rejected] fresh))
     = Some False"
  by (simp add: eval_defs)

text \<open>
  Claim C6, as amended. \<open>destroySync()\<close> sets \<open>destroyed\<close>, clears both timers, makes one
  call \<open>client.destroy()\<close> when a client is held (and no call that clears the displayed
  status), drops the client and sets \<open>connected\<close> to false. It awaits nothing: it returns
  without suspending, with the promise of the close call left pending, and leaves every
  other field, \<open>lastActivity\<close> included, as it was.
\<close>

theorem destroySync_effect:
  "destroySync throws m =
     (Return () (m\<lparr>destroyed := True, heartbeatTimer := False, reconnectTimer := False,
                   client := None, connected := False,
                   calls := calls m @ (case client m of None \<Rightarrow> [] | Some c \<Rightarrow> [Destroy])\<rparr>),
      if client m \<noteq> None \<and> \<not> throws then [DroppedClose] else [])"
  by (rule destroySync_state)

theorem destroySync_effect_witness:
  "destroySync False online =
     (Return () (online\<lparr>destroyed := True, heartbeatTimer := False, reconnectTimer := False,
                   client := None, connected := False, calls := [NewClient, Login, Destroy]\<rparr>),
      [DroppedClose])"
  using destroySync_effect [of False online]
  by (simp add: eval_defs)

text \<open>
  The claim C6 as it is stated fails on a connected manager: \<open>destroySync()\<close> makes the
  single call \<open>destroy\<close> on the client and no \<open>clearActivity\<close> call.
\<close>

theorem destroySync_counterexample:
  "connected online \<and> client online = Some Client
   \<and> calls (state_of (fst (destroySync False online))) = calls online @ [Destroy]
   \<and> ClearActivity \<notin> set (calls (state_of (fst (destroySync False online))))"
  by (simp add: eval_defs)

text \<open>
  Claim C2 fails on the code. \<open>update\<close> is called on a new manager, the login resolves and
  the replay of the cached presence is rejected: \<open>sendActivity\<close> sets the reconnect timer
  and \<open>connect\<close> then sets the heartbeat timer. Both timers are set, on a manager that is
  neither connected nor destroyed.
\<close>

theorem timers_overlap_after_failed_replay:
  "map_option heartbeatTimer (final (run
      [CallUpdate ''Idle'' None, Settle ConnectLogin Resolved, Settle ConnectReplay Rejected] fresh))
     = Some True
   \<and> map_option reconnectTimer (final (run
      [CallUpdate ''Idle'' None, Settle ConnectLogin Resolved, Settle ConnectReplay Rejected] fresh))
     = Some True
   \<and> map_option connected (final (run
      [CallUpdate ''Idle'' None, Settle ConnectLogin Resolved, Settle ConnectReplay Rejected] fresh))
     = Some False
   \<and> map_option destroyed (final (run
      [CallUpdate ''Idle'' None, Settle ConnectLogin Resolved, Settle ConnectReplay Rejected] fresh))
     = Some False"
  by (simp add: eval_defs)

section \<open>A connect in flight when the manager is destroyed\<close>

text \<open>
  Claim C7 fails on the code. \<open>connect\<close> tests \<open>destroyed\<close> on entry only. A manager
  was connected and lost its transport; its next \<open>connect()\<close> is suspended at the close of
  the old client when \<open>destroySync()\<close> runs. The calls \<open>update()\<close> and \<open>connect()\<close>
  made after \<open>destroySync()\<close> return at once, but the suspended \<open>connect\<close> goes on: it
  creates a new client and logs in, and when the login resolves it sets \<open>connected\<close>,
  replays the presence cached by the later \<open>update()\<close> and sets the heartbeat timer, on a
  manager that is destroyed.
\<close>

theorem connect_in_flight_survives_destroySync:
  "final (run
      [CallConnect, Settle ConnectLogin Resolved, TransportClosed, CallConnect,
       CallDestroySync False] fresh)
     = Some ((new_manager ''myproj'' 0)
          \<lparr>destroyed := True, connecting := True, calls := [NewClient, Login, Destroy, Destroy]\<rparr>)
   \<and> final (run
      [CallConnect, Settle ConnectLogin Resolved, TransportClosed, CallConnect,
       CallDestroySync False, CallUpdate ''Idle'' None, CallConnect,
       Settle ConnectDestroy Resolved, Settle ConnectLogin Resolved,
       Settle ConnectReplay Resolved] fresh)
     = Some ((new_manager ''myproj'' 0)
          \<lparr>destroyed := True, connected := True, client := Some Client, heartbeatTimer := True,
           lastActivity := Some \<lparr>details = ''Working on myproj'', state = ''Idle'',
                                   startTimestamp = 0\<rparr>,
           calls := [NewClient, Login, Destroy, Destroy, NewClient, Login,
                     SetActivity \<lparr>details = ''Working on myproj'', state = ''Idle'',
                                   startTimestamp = 0\<rparr>]\<rparr>)"
  by (simp add: eval_defs)

section \<open>The client handle of a connected manager\<close>













































end
